theory Spec2Isabelle
  imports Complex_Main "HOL-Library.Multiset"
begin

section \<open>Weather observations: the query and aggregation handlers\<close>

text \<open>
  The development embeds the two query handlers of \<^verbatim>\<open>src/server/index.js\<close>,
  \<^verbatim>\<open>GET /api/measurements\<close> and \<^verbatim>\<open>GET /api/measurements/metrics\<close>. The list
  handler of \<^verbatim>\<open>src/unnamed/part_000\<close> is the same code.

  Conventions. A JavaScript \<^verbatim>\<open>Number\<close> holding a measured value is a \<^typ>\<open>real\<close>, as in
  the data model of the specification (``real number''), and arithmetic on it is exact:
  the rounding that double-precision arithmetic adds to a product, a quotient or a
  square root is not represented. Properties that depend on that rounding, such as the
  agreement to the last digit of two ways of computing a standard deviation (the
  \<^verbatim>\<open>$stdDevPop\<close> of the store against \<^verbatim>\<open>calculateStdDev\<close> of
  \<^verbatim>\<open>src/unnamed/part_000\<close>), are not stated. A \<^verbatim>\<open>Date\<close> is its time value, an
  \<^typ>\<open>int\<close> of milliseconds since the epoch, or \<open>Invalid_Date\<close>. A query parameter
  is a \<^typ>\<open>string option\<close>: \<open>None\<close> when the key is not in the query string,
  \<open>Some []\<close> for \<^verbatim>\<open>?field=\<close>.
\<close>

subsection \<open>The data model (\<^verbatim>\<open>measurementSchema\<close>)\<close>

record measurement =
  timestamp :: int
  temperature :: real
  humidity :: real
  pressure :: real

datatype jsval = JDate int | JNum real

type_synonym jsobj = "(string \<times> jsval) list"

text \<open>The plain object \<^verbatim>\<open>lean()\<close> returns; the store's own \<^verbatim>\<open>_id\<close> and \<^verbatim>\<open>__v\<close>
  keys carry no observation data and are left out.\<close>

definition toObject :: "measurement \<Rightarrow> jsobj" where
  "toObject m =
     [(''timestamp'', JDate (timestamp m)),
      (''temperature'', JNum (temperature m)),
      (''humidity'', JNum (humidity m)),
      (''pressure'', JNum (pressure m))]"

text \<open>\<^verbatim>\<open>m[field]\<close>: the property of that name, \<open>None\<close> for \<^verbatim>\<open>undefined\<close>.\<close>

definition getProp :: "measurement \<Rightarrow> string \<Rightarrow> jsval option" where
  "getProp m k = map_of (toObject m) k"

text \<open>The field path \<^verbatim>\<open>`$${field}`\<close> of an accumulator: the numeric value at that
  path, \<open>None\<close> when the path is missing or not a number.\<close>

definition numAt :: "string \<Rightarrow> measurement \<Rightarrow> real option" where
  "numAt f m = (case getProp m f of Some (JNum v) \<Rightarrow> Some v | _ \<Rightarrow> None)"

definition VALID_FIELDS :: "string list" where
  "VALID_FIELDS = [''temperature'', ''humidity'', ''pressure'']"

subsection \<open>Dates\<close>

datatype jsdate = Invalid_Date | Time int

definition msPerDay :: int where
  "msPerDay = 86400000"

definition isDigit :: "char \<Rightarrow> bool" where
  "isDigit c = (c \<in> set ''0123456789'')"

text \<open>\<^verbatim>\<open>/^\d{4}-\d{2}-\d{2}$/.test(s)\<close>: exactly ten characters.\<close>

definition regex_test :: "string \<Rightarrow> bool" where
  "regex_test s =
     (length s = 10 \<and> list_all isDigit (take 4 s) \<and> s ! 4 = CHR ''-'' \<and>
      list_all isDigit (take 2 (drop 5 s)) \<and> s ! 7 = CHR ''-'' \<and>
      list_all isDigit (take 2 (drop 8 s)))"

definition digitVal :: "char \<Rightarrow> int" where
  "digitVal c = int (of_char c) - 48"

definition toInt :: "string \<Rightarrow> int" where
  "toInt s = foldl (\<lambda>n c. 10 * n + digitVal c) 0 s"

definition yearOf :: "string \<Rightarrow> int" where
  "yearOf s = toInt (take 4 s)"

definition monthOf :: "string \<Rightarrow> int" where
  "monthOf s = toInt (take 2 (drop 5 s))"

definition dayOf :: "string \<Rightarrow> int" where
  "dayOf s = toInt (take 2 (drop 8 s))"

text \<open>\<^verbatim>\<open>MakeDay\<close> of ECMAScript for a month in 1..12: the day number, counted from the
  epoch, of the given day of the month in the proleptic Gregorian calendar. A day past
  the end of the month runs on into the next.\<close>

definition MakeDay :: "int \<Rightarrow> int \<Rightarrow> int \<Rightarrow> int" where
  "MakeDay y m d =
     (let y' = (if m \<le> 2 then y - 1 else y);
          era = y' div 400;
          yoe = y' - era * 400;
          mp = (if m > 2 then m - 3 else m + 9);
          doy = (153 * mp + 2) div 5 + d - 1;
          doe = yoe * 365 + yoe div 4 - yoe div 100 + doy
      in era * 146097 + doe - 719468)"

text \<open>\<^verbatim>\<open>new Date(s)\<close> on a string of the date-only form, which is all the handlers
  pass to it: the date is read as UTC. The engine the server runs on (V8) takes a
  month of 01..12 and a day of 01..31; anything else is \<open>Invalid_Date\<close>.\<close>

definition new_Date :: "string \<Rightarrow> jsdate" where
  "new_Date s =
     (if regex_test s \<and> 1 \<le> monthOf s \<and> monthOf s \<le> 12 \<and> 1 \<le> dayOf s \<and> dayOf s \<le> 31
      then Time (MakeDay (yearOf s) (monthOf s) (dayOf s) * msPerDay)
      else Invalid_Date)"

definition isNaN :: "jsdate \<Rightarrow> bool" where
  "isNaN d = (case d of Invalid_Date \<Rightarrow> True | Time t \<Rightarrow> False)"

definition isValidDate :: "string \<Rightarrow> bool" where
  "isValidDate dateString =
     (if \<not> regex_test dateString then False
      else let date = new_Date dateString in \<not> isNaN date)"

text \<open>The server's time zone, as \<^verbatim>\<open>Date\<close> sees it: the offset of local time from UTC
  in milliseconds (positive east of Greenwich) in force at a UTC instant, and the
  offset in force at a local time. The two differ around a clock change; where a local
  time occurs twice or not at all, the offset before the change counts.\<close>

record zone =
  offset_utc :: "int \<Rightarrow> int"
  offset_local :: "int \<Rightarrow> int"

text \<open>A zone with no clock change, and UTC.\<close>

definition fixed_zone :: "int \<Rightarrow> zone" where
  "fixed_zone off = \<lparr>offset_utc = (\<lambda>t. off), offset_local = (\<lambda>t. off)\<rparr>"

definition utc :: zone where
  "utc = fixed_zone 0"

text \<open>The Azores in 2025: one hour behind UTC, and on UTC in summer, from 01:00 UTC on
  30 March to 01:00 UTC on 26 October (00:00 and 01:00 local on those days).\<close>

definition azores_2025 :: zone where
  "azores_2025 =
     \<lparr>offset_utc = (\<lambda>t. if 1743296400000 \<le> t \<and> t < 1761440400000 then 0 else - 3600000),
      offset_local = (\<lambda>t. if 1743296400000 \<le> t \<and> t < 1761440400000 then 0 else - 3600000)\<rparr>"

text \<open>New York in 2025: five hours behind UTC, and four in summer, from 07:00 UTC on
  9 March to 06:00 UTC on 2 November (local times from 03:00 on 9 March to before 02:00
  on 2 November).\<close>

definition new_york_2025 :: zone where
  "new_york_2025 =
     \<lparr>offset_utc =
        (\<lambda>t. if 1741503600000 \<le> t \<and> t < 1762063200000 then - 14400000 else - 18000000),
      offset_local =
        (\<lambda>t. if 1741489200000 \<le> t \<and> t < 1762048800000 then - 14400000 else - 18000000)\<rparr>"

text \<open>\<^verbatim>\<open>d.setHours(h, m, s, ms)\<close> works in local time: the date is taken to local time
  with the offset in force at its instant, the time of day is replaced within that
  local day, and the result is taken back to UTC with the offset in force at the new
  local time. \<open>tz\<close> is the server's zone.\<close>

definition setHours :: "zone \<Rightarrow> jsdate \<Rightarrow> int \<Rightarrow> int \<Rightarrow> int \<Rightarrow> int \<Rightarrow> jsdate" where
  "setHours tz d h m s ms =
     (case d of
        Invalid_Date \<Rightarrow> Invalid_Date
      | Time t \<Rightarrow>
          (let local = t + offset_utc tz t;
               day = local div msPerDay;
               date = day * msPerDay + (h * 3600000 + m * 60000 + s * 1000 + ms)
           in Time (date - offset_local tz date)))"

subsection \<open>Requests and responses\<close>

record params =
  field :: "string option"
  start_date :: "string option"
  end_date :: "string option"

text \<open>A query parameter in a condition: \<^verbatim>\<open>undefined\<close> and the empty string are
  falsy.\<close>

definition truthy :: "string option \<Rightarrow> bool" where
  "truthy p = (case p of None \<Rightarrow> False | Some s \<Rightarrow> s \<noteq> [])"

definition array_includes :: "string list \<Rightarrow> string option \<Rightarrow> bool" where
  "array_includes xs p = (case p of None \<Rightarrow> False | Some s \<Rightarrow> s \<in> set xs)"

fun join :: "string \<Rightarrow> string list \<Rightarrow> string" where
  "join sep [] = []"
| "join sep [x] = x"
| "join sep (x # y # ys) = x @ sep @ join sep (y # ys)"

record metrics =
  m_field :: string
  m_count :: nat
  m_avg :: real
  m_min :: real
  m_max :: real
  m_stdDev :: real

datatype body =
    Error string string
  | Rows "jsobj list"
  | Metrics metrics

type_synonym response = "nat \<times> body"

definition invalidField :: response where
  "invalidField =
     (400, Error ''Invalid field name''
        (''Field must be one of: '' @ join '', '' VALID_FIELDS))"

definition missingField :: response where
  "missingField =
     (400, Error ''Missing field parameter''
        (''Field is required. Must be one of: '' @ join '', '' VALID_FIELDS))"

definition invalidStartDate :: response where
  "invalidStartDate =
     (400, Error ''Invalid start_date format'' ''Date must be in YYYY-MM-DD format'')"

definition invalidEndDate :: response where
  "invalidEndDate =
     (400, Error ''Invalid end_date format'' ''Date must be in YYYY-MM-DD format'')"

definition noDataFound :: response where
  "noDataFound =
     (404, Error ''No data found'' ''No measurements found for the specified criteria'')"

subsection \<open>The date filter\<close>

record dateFilter =
  gte :: "jsdate option"
  lte :: "jsdate option"

text \<open>Both handlers build the filter with the same statements; they are written once
  here. \<open>Inl\<close> is the early \<^verbatim>\<open>return res.status(400)\<close>.\<close>

definition buildDateFilter :: "zone \<Rightarrow> params \<Rightarrow> response + dateFilter" where
  "buildDateFilter tz q =
     (let dateFilter = \<lparr>gte = None, lte = None\<rparr> in
      if truthy (start_date q) \<and> \<not> isValidDate (the (start_date q)) then Inl invalidStartDate
      else
        let dateFilter =
              (if truthy (start_date q)
               then dateFilter\<lparr>gte := Some (new_Date (the (start_date q)))\<rparr>
               else dateFilter) in
        if truthy (end_date q) \<and> \<not> isValidDate (the (end_date q)) then Inl invalidEndDate
        else
          Inr (if truthy (end_date q)
               then
                 (let endDateTime = new_Date (the (end_date q));
                      endDateTime = setHours tz endDateTime 23 59 59 999
                  in dateFilter\<lparr>lte := Some endDateTime\<rparr>)
               else dateFilter))"

text \<open>\<^verbatim>\<open>query.timestamp\<close> is set only when the filter has a key.\<close>

record query =
  q_timestamp :: "dateFilter option"

definition Object_keys :: "dateFilter \<Rightarrow> string list" where
  "Object_keys df =
     (case gte df of None \<Rightarrow> [] | Some d \<Rightarrow> [''$gte'']) @
     (case lte df of None \<Rightarrow> [] | Some d \<Rightarrow> [''$lte''])"

definition buildQuery :: "dateFilter \<Rightarrow> query" where
  "buildQuery df =
     (if length (Object_keys df) > 0 then \<lparr>q_timestamp = Some df\<rparr>
      else \<lparr>q_timestamp = None\<rparr>)"

subsection \<open>The observation store\<close>

text \<open>The store is the collaborator behind \<^verbatim>\<open>Measurement\<close>: its documents, whether a
  call to it succeeds (a call to an unavailable store rejects, which the handlers catch),
  and the calls issued to it so far, oldest first.\<close>

datatype store_op =
    Find query
  | Aggregate_stdDevPop query string

record store =
  docs :: "measurement list"
  available :: bool
  issued :: "store_op list"

definition matches :: "query \<Rightarrow> measurement \<Rightarrow> bool" where
  "matches qu m =
     (case q_timestamp qu of
        None \<Rightarrow> True
      | Some df \<Rightarrow>
          (case gte df of
             None \<Rightarrow> True
           | Some Invalid_Date \<Rightarrow> False
           | Some (Time t) \<Rightarrow> t \<le> timestamp m) \<and>
          (case lte df of
             None \<Rightarrow> True
           | Some Invalid_Date \<Rightarrow> False
           | Some (Time t) \<Rightarrow> timestamp m \<le> t))"

text \<open>\<^verbatim>\<open>Measurement.find(query).sort({ timestamp: 1 }).lean()\<close>; \<open>None\<close> is the
  rejected promise.\<close>

definition Measurement_find :: "store \<Rightarrow> query \<Rightarrow> measurement list option \<times> store" where
  "Measurement_find st qu =
     ((if available st then Some (sort_key timestamp (filter (matches qu) (docs st)))
       else None),
      st\<lparr>issued := issued st @ [Find qu]\<rparr>)"

text \<open>Modelled from the spec: the accumulators of the store's grouped aggregation
  (\<^verbatim>\<open>$avg\<close>, \<^verbatim>\<open>$min\<close>, \<^verbatim>\<open>$max\<close>, \<^verbatim>\<open>$stdDevPop\<close>), which are the store's code and
  not the repository's. Section 4.3 gives them over the matching values
  \<open>v\<^sub>1 .. v\<^sub>n\<close>: \<open>avg = (\<Sum> v\<^sub>i) / n\<close>, \<open>min = min(v\<^sub>i)\<close>, \<open>max = max(v\<^sub>i)\<close> and the
  population standard deviation \<open>sqrt ((\<Sum> (v\<^sub>i - avg)\<^sup>2) / n)\<close>, which is 0 for
  \<open>n = 1\<close>. Over no value at all an accumulator has no value (\<^verbatim>\<open>null\<close>, here
  \<open>None\<close>).\<close>

definition acc_avg :: "real list \<Rightarrow> real option" where
  "acc_avg vs = (if vs = [] then None else Some (sum_list vs / real (length vs)))"

definition acc_min :: "real list \<Rightarrow> real option" where
  "acc_min vs = (case vs of [] \<Rightarrow> None | v # rest \<Rightarrow> Some (fold min rest v))"

definition acc_max :: "real list \<Rightarrow> real option" where
  "acc_max vs = (case vs of [] \<Rightarrow> None | v # rest \<Rightarrow> Some (fold max rest v))"

definition acc_stdDevPop :: "real list \<Rightarrow> real option" where
  "acc_stdDevPop vs =
     (if vs = [] then None
      else if length vs = 1 then Some 0
      else
        (let n = real (length vs);
             avg = sum_list vs / n
         in Some (sqrt (sum_list (map (\<lambda>v. (v - avg)\<^sup>2) vs) / n))))"

record group_stdDevPop =
  g_avg :: "real option"
  g_min :: "real option"
  g_max :: "real option"
  g_stdDev :: "real option"
  g_count :: nat

text \<open>The \<^verbatim>\<open>$group\<close> stage with \<^verbatim>\<open>_id: null\<close>: one group over all the documents
  that reach it, and no group when none does.\<close>

definition group_by_stdDevPop :: "string \<Rightarrow> measurement list \<Rightarrow> group_stdDevPop list" where
  "group_by_stdDevPop f ms =
     (if ms = [] then []
      else
        (let vs = List.map_filter (numAt f) ms
         in [\<lparr>g_avg = acc_avg vs, g_min = acc_min vs, g_max = acc_max vs,
              g_stdDev = acc_stdDevPop vs, g_count = length ms\<rparr>]))"

text \<open>\<^verbatim>\<open>Measurement.aggregate([{ $match }, { $group }])\<close>, with the group stage of
  \<^verbatim>\<open>src/server/index.js\<close> and with that of \<^verbatim>\<open>src/unnamed/part_000\<close>.\<close>

definition Measurement_aggregate ::
  "store \<Rightarrow> query \<Rightarrow> string \<Rightarrow> group_stdDevPop list option \<times> store" where
  "Measurement_aggregate st matchStage f =
     ((if available st then Some (group_by_stdDevPop f (filter (matches matchStage) (docs st)))
       else None),
      st\<lparr>issued := issued st @ [Aggregate_stdDevPop matchStage f]\<rparr>)"

subsection \<open>Arithmetic of the handlers\<close>

text \<open>\<^verbatim>\<open>Math.round\<close>: the nearest integer, a half going up. The product by 100
  before it and the quotient by 100 after it are exact here. In double precision the
  product rounds, which moves a value lying within rounding error of a half (a stored
  0.015 becomes 1.5 and rounds to 0.02, where the exact product stays below 1.5); the
  step is monotone either way.\<close>

definition Math_round :: "real \<Rightarrow> real" where
  "Math_round x = of_int \<lfloor>x + 1 / 2\<rfloor>"

text \<open>A store value in arithmetic: \<^verbatim>\<open>null\<close> counts as 0.\<close>

definition ToNumber :: "real option \<Rightarrow> real" where
  "ToNumber v = (case v of None \<Rightarrow> 0 | Some x \<Rightarrow> x)"

text \<open>\<^verbatim>\<open>stdDev || 0\<close>: \<^verbatim>\<open>null\<close> and 0 are falsy.\<close>

definition or_zero :: "real option \<Rightarrow> real" where
  "or_zero v = (case v of None \<Rightarrow> 0 | Some x \<Rightarrow> if x = 0 then 0 else x)"

subsection \<open>The handlers\<close>

definition internalError :: "string \<Rightarrow> response" where
  "internalError msg = (500, Error ''Internal server error'' msg)"

text \<open>\<^verbatim>\<open>{ timestamp: m.timestamp, [field]: m[field] }\<close>; a property that is
  \<^verbatim>\<open>undefined\<close> is not serialised.\<close>

definition project :: "string \<Rightarrow> measurement \<Rightarrow> jsobj" where
  "project f m =
     (''timestamp'', JDate (timestamp m)) #
     (case getProp m f of None \<Rightarrow> [] | Some v \<Rightarrow> [(f, v)])"

text \<open>\<^verbatim>\<open>GET /api/measurements\<close>. \<open>tz\<close> is the server's zone offset.\<close>

definition get_measurements :: "zone \<Rightarrow> store \<Rightarrow> params \<Rightarrow> response \<times> store" where
  "get_measurements tz st q =
     (if truthy (field q) \<and> \<not> array_includes VALID_FIELDS (field q) then (invalidField, st)
      else
        (case buildDateFilter tz q of
           Inl r \<Rightarrow> (r, st)
         | Inr dateFilter \<Rightarrow>
             (let qu = buildQuery dateFilter;
                  (found, st') = Measurement_find st qu
              in case found of
                   None \<Rightarrow> (internalError ''An error occurred while fetching data'', st')
                 | Some measurements \<Rightarrow>
                     if length measurements = 0 then (noDataFound, st')
                     else if truthy (field q)
                       then ((200, Rows (map (project (the (field q))) measurements)), st')
                       else ((200, Rows (map toObject measurements)), st'))))"

text \<open>\<^verbatim>\<open>GET /api/measurements/metrics\<close> of \<^verbatim>\<open>src/server/index.js\<close>.\<close>

definition get_metrics :: "zone \<Rightarrow> store \<Rightarrow> params \<Rightarrow> response \<times> store" where
  "get_metrics tz st q =
     (if \<not> truthy (field q) then (missingField, st)
      else if \<not> array_includes VALID_FIELDS (field q) then (invalidField, st)
      else
        (case buildDateFilter tz q of
           Inl r \<Rightarrow> (r, st)
         | Inr dateFilter \<Rightarrow>
             (let matchStage = buildQuery dateFilter;
                  (aggregationResult, st') = Measurement_aggregate st matchStage (the (field q))
              in case aggregationResult of
                   None \<Rightarrow> (internalError ''An error occurred while calculating metrics'', st')
                 | Some [] \<Rightarrow> (noDataFound, st')
                 | Some (g # _) \<Rightarrow>
                     ((200, Metrics
                        \<lparr>m_field = the (field q),
                         m_count = g_count g,
                         m_avg = Math_round (ToNumber (g_avg g) * 100) / 100,
                         m_min = Math_round (ToNumber (g_min g) * 100) / 100,
                         m_max = Math_round (ToNumber (g_max g) * 100) / 100,
                         m_stdDev = Math_round (or_zero (g_stdDev g) * 100) / 100\<rparr>), st'))))"

subsection \<open>Vocabulary of the properties\<close>

text \<open>What the handlers' checks decide, as predicates on a request. A field is
  \<^emph>\<open>missing\<close> when it is falsy (absent or empty) and \<^emph>\<open>invalid\<close> when it is truthy and
  outside \<open>VALID_FIELDS\<close>; a date bound is \<^emph>\<open>malformed\<close> when it is truthy and
  \<open>isValidDate\<close> refuses it.\<close>

definition field_missing :: "params \<Rightarrow> bool" where
  "field_missing q = (case field q of None \<Rightarrow> True | Some f \<Rightarrow> f = [])"

definition field_invalid :: "params \<Rightarrow> bool" where
  "field_invalid q =
     (case field q of None \<Rightarrow> False | Some f \<Rightarrow> f \<noteq> [] \<and> f \<notin> set VALID_FIELDS)"

definition date_malformed :: "string option \<Rightarrow> bool" where
  "date_malformed p =
     (case p of None \<Rightarrow> False | Some s \<Rightarrow> s \<noteq> [] \<and> \<not> isValidDate s)"

definition list_valid :: "params \<Rightarrow> bool" where
  "list_valid q =
     (\<not> field_invalid q \<and> \<not> date_malformed (start_date q) \<and> \<not> date_malformed (end_date q))"

definition metrics_valid :: "params \<Rightarrow> bool" where
  "metrics_valid q = (\<not> field_missing q \<and> list_valid q)"

text \<open>The range predicate the handlers hand to the store for a request whose dates
  pass, and the stored observations it selects.\<close>

definition range_of :: "zone \<Rightarrow> params \<Rightarrow> query" where
  "range_of tz q =
     (case buildDateFilter tz q of
        Inl r \<Rightarrow> \<lparr>q_timestamp = None\<rparr>
      | Inr df \<Rightarrow> buildQuery df)"

definition matching :: "zone \<Rightarrow> store \<Rightarrow> params \<Rightarrow> measurement list" where
  "matching tz st q = filter (matches (range_of tz q)) (docs st)"

text \<open>A bound of the range as the handlers set it: none for a falsy parameter.\<close>

definition bound_of :: "(string \<Rightarrow> jsdate) \<Rightarrow> string option \<Rightarrow> jsdate option" where
  "bound_of f p = (case p of None \<Rightarrow> None | Some s \<Rightarrow> if s = [] then None else Some (f s))"

text \<open>\<open>start_date\<close> later than \<open>end_date\<close>, as the dates the two strings denote.\<close>

definition start_after_end :: "params \<Rightarrow> bool" where
  "start_after_end q =
     (case (start_date q, end_date q) of
        (Some s, Some e) \<Rightarrow>
          (case (new_Date s, new_Date e) of
             (Time a, Time b) \<Rightarrow> b < a
           | _ \<Rightarrow> False)
      | _ \<Rightarrow> False)"






text \<open>The value of a valid field in an observation.\<close>

definition value_of :: "string \<Rightarrow> measurement \<Rightarrow> real" where
  "value_of f m =
     (if f = ''temperature'' then temperature m
      else if f = ''humidity'' then humidity m
      else pressure m)"

text \<open>The values the group stage of a metrics request reads: those of the named field
  in the matching observations.\<close>

definition field_name :: "params \<Rightarrow> string" where
  "field_name q = (case field q of None \<Rightarrow> [] | Some f \<Rightarrow> f)"

definition matching_values :: "zone \<Rightarrow> store \<Rightarrow> params \<Rightarrow> real list" where
  "matching_values tz st q = List.map_filter (numAt (field_name q)) (matching tz st q)"

text \<open>A store to run the handlers on: the three observations of the scenario in the
  specification (midnight UTC of 1, 2 and 3 January 2025), not in time order.\<close>

definition example_store :: store where
  "example_store =
     \<lparr>docs =
        [\<lparr>timestamp = 1735776000000, temperature = 20, humidity = 55, pressure = 1012\<rparr>,
         \<lparr>timestamp = 1735689600000, temperature = 10, humidity = 50, pressure = 1010\<rparr>,
         \<lparr>timestamp = 1735862400000, temperature = 30, humidity = 60, pressure = 1015\<rparr>],
      available = True,
      issued = []\<rparr>"

section \<open>Properties\<close>

subsection \<open>How the handlers run\<close>

lemma buildDateFilter_start:
  "date_malformed (start_date q) \<Longrightarrow> buildDateFilter tz q = Inl invalidStartDate"
  by (auto simp: buildDateFilter_def date_malformed_def truthy_def split: option.splits)

lemma buildDateFilter_end:
  "\<not> date_malformed (start_date q) \<Longrightarrow> date_malformed (end_date q) \<Longrightarrow>
   buildDateFilter tz q = Inl invalidEndDate"
  by (auto simp: buildDateFilter_def date_malformed_def truthy_def Let_def split: option.splits)

lemma buildDateFilter_ok:
  "\<not> date_malformed (start_date q) \<Longrightarrow> \<not> date_malformed (end_date q) \<Longrightarrow>
   buildDateFilter tz q =
     Inr \<lparr>gte = bound_of new_Date (start_date q),
          lte = bound_of (\<lambda>s. setHours tz (new_Date s) 23 59 59 999) (end_date q)\<rparr>"
  by (auto simp: buildDateFilter_def date_malformed_def truthy_def Let_def bound_of_def split: option.splits)

lemma buildDateFilter_cases:
  "buildDateFilter tz q = Inl invalidStartDate \<and> date_malformed (start_date q) \<or>
   buildDateFilter tz q = Inl invalidEndDate \<and> \<not> date_malformed (start_date q) \<and> date_malformed (end_date q) \<or>
   (\<exists>df. buildDateFilter tz q = Inr df) \<and> \<not> date_malformed (start_date q) \<and> \<not> date_malformed (end_date q)"
  using buildDateFilter_start[of q tz] buildDateFilter_end[of q tz] buildDateFilter_ok[of q tz]
  by blast

lemma get_measurements_invalid:
  "field_invalid q \<Longrightarrow> get_measurements tz st q = (invalidField, st)"
  by (auto simp: get_measurements_def field_invalid_def truthy_def array_includes_def split: option.splits)

lemma get_measurements_Inl:
  "\<not> field_invalid q \<Longrightarrow> buildDateFilter tz q = Inl r \<Longrightarrow> get_measurements tz st q = (r, st)"
  by (auto simp: get_measurements_def field_invalid_def truthy_def array_includes_def split: option.splits)

lemma get_measurements_Inr:
  "\<not> field_invalid q \<Longrightarrow> buildDateFilter tz q = Inr df \<Longrightarrow>
   get_measurements tz st q =
     ((if \<not> available st then internalError ''An error occurred while fetching data''
       else if matching tz st q = [] then noDataFound
       else if field_missing q then (200, Rows (map toObject (sort_key timestamp (matching tz st q))))
       else (200, Rows (map (project (the (field q))) (sort_key timestamp (matching tz st q))))),
      st\<lparr>issued := issued st @ [Find (range_of tz q)]\<rparr>)"
  by (auto simp: get_measurements_def field_invalid_def field_missing_def truthy_def
      array_includes_def Measurement_find_def matching_def range_of_def Let_def
      split: option.splits)

lemma get_metrics_missing:
  "field_missing q \<Longrightarrow> get_metrics tz st q = (missingField, st)"
  by (auto simp: get_metrics_def field_missing_def truthy_def split: option.splits)

lemma get_metrics_invalid:
  "field_invalid q \<Longrightarrow> get_metrics tz st q = (invalidField, st)"
  by (auto simp: get_metrics_def field_invalid_def truthy_def array_includes_def split: option.splits)

lemma get_metrics_Inl:
  "\<not> field_missing q \<Longrightarrow> \<not> field_invalid q \<Longrightarrow> buildDateFilter tz q = Inl r \<Longrightarrow>
   get_metrics tz st q = (r, st)"
  by (auto simp: get_metrics_def field_invalid_def field_missing_def truthy_def array_includes_def
      split: option.splits)

lemma get_metrics_Inr:
  "\<not> field_missing q \<Longrightarrow> \<not> field_invalid q \<Longrightarrow> buildDateFilter tz q = Inr df \<Longrightarrow>
   get_metrics tz st q =
     ((if \<not> available st then internalError ''An error occurred while calculating metrics''
       else case group_by_stdDevPop (the (field q)) (matching tz st q) of
          [] \<Rightarrow> noDataFound
        | g # _ \<Rightarrow> (200, Metrics
                        \<lparr>m_field = the (field q),
                         m_count = g_count g,
                         m_avg = Math_round (ToNumber (g_avg g) * 100) / 100,
                         m_min = Math_round (ToNumber (g_min g) * 100) / 100,
                         m_max = Math_round (ToNumber (g_max g) * 100) / 100,
                         m_stdDev = Math_round (or_zero (g_stdDev g) * 100) / 100\<rparr>)),
      st\<lparr>issued := issued st @ [Aggregate_stdDevPop (range_of tz q) (the (field q))]\<rparr>)"
  by (auto simp: get_metrics_def field_invalid_def field_missing_def truthy_def
      array_includes_def Measurement_aggregate_def matching_def range_of_def Let_def
      split: option.splits list.splits)

lemma responses_distinct:
  "missingField \<noteq> invalidField" "invalidStartDate \<noteq> invalidField" "invalidEndDate \<noteq> invalidField"
  "invalidStartDate \<noteq> missingField" "invalidEndDate \<noteq> missingField" "invalidStartDate \<noteq> invalidEndDate"
  "noDataFound \<noteq> invalidField" "noDataFound \<noteq> missingField" "noDataFound \<noteq> invalidStartDate" 
  "noDataFound \<noteq> invalidEndDate" "internalError msg \<noteq> invalidField" "internalError msg \<noteq> missingField"
  "internalError msg \<noteq> invalidStartDate" "internalError msg \<noteq> invalidEndDate"
  "(200, b) \<noteq> invalidField" "(200, b) \<noteq> missingField" "(200, b) \<noteq> invalidStartDate" "(200, b) \<noteq> invalidEndDate"
  by (simp_all add: missingField_def invalidField_def invalidStartDate_def invalidEndDate_def noDataFound_def internalError_def)

lemma status_400:
  "fst invalidField = 400" "fst missingField = 400" "fst invalidStartDate = 400" "fst invalidEndDate = 400"
  by (simp_all add: missingField_def invalidField_def invalidStartDate_def invalidEndDate_def)

lemma field_missing_upd [simp]:
  "field_missing (q\<lparr>field := Some []\<rparr>)" "field_missing (q\<lparr>field := None\<rparr>)"
  "\<not> field_invalid (q\<lparr>field := Some []\<rparr>)" "\<not> field_invalid (q\<lparr>field := None\<rparr>)"
  by (simp_all add: field_missing_def field_invalid_def)

lemma buildDateFilter_field [simp]: "buildDateFilter tz (q\<lparr>field := f\<rparr>) = buildDateFilter tz q"
  by (simp add: buildDateFilter_def Let_def)

lemma matching_field [simp]: "matching tz st (q\<lparr>field := f\<rparr>) = matching tz st q"
  by (simp add: matching_def range_of_def)

lemma buildDateFilter_empty_start:
  "buildDateFilter tz (q\<lparr>start_date := Some []\<rparr>) = buildDateFilter tz (q\<lparr>start_date := None\<rparr>)"
  by (simp add: buildDateFilter_def truthy_def Let_def)

lemma buildDateFilter_empty_end:
  "buildDateFilter tz (q\<lparr>end_date := Some []\<rparr>) = buildDateFilter tz (q\<lparr>end_date := None\<rparr>)"
  by (simp add: buildDateFilter_def truthy_def Let_def)

lemma get_measurements_empty_field:
  "get_measurements tz st (q\<lparr>field := Some []\<rparr>) = get_measurements tz st (q\<lparr>field := None\<rparr>)"
  by (simp add: get_measurements_def truthy_def array_includes_def Let_def
      split: sum.splits option.splits prod.splits)

lemma get_measurements_empty_start:
  "get_measurements tz st (q\<lparr>start_date := Some []\<rparr>) =
   get_measurements tz st (q\<lparr>start_date := None\<rparr>)"
  by (simp add: get_measurements_def buildDateFilter_empty_start Let_def
      split: sum.splits option.splits prod.splits)

lemma get_measurements_empty_end:
  "get_measurements tz st (q\<lparr>end_date := Some []\<rparr>) =
   get_measurements tz st (q\<lparr>end_date := None\<rparr>)"
  by (simp add: get_measurements_def buildDateFilter_empty_end Let_def
      split: sum.splits option.splits prod.splits)

lemma get_metrics_empty_start:
  "get_metrics tz st (q\<lparr>start_date := Some []\<rparr>) = get_metrics tz st (q\<lparr>start_date := None\<rparr>)"
  by (simp add: get_metrics_def buildDateFilter_empty_start Let_def
      split: sum.splits option.splits prod.splits list.splits)

lemma get_metrics_empty_end:
  "get_metrics tz st (q\<lparr>end_date := Some []\<rparr>) = get_metrics tz st (q\<lparr>end_date := None\<rparr>)"
  by (simp add: get_metrics_def buildDateFilter_empty_end Let_def
      split: sum.splits option.splits prod.splits list.splits)

lemma get_measurements_responses:
  "\<not> field_invalid q \<Longrightarrow>
   fst (get_measurements tz st q) =
     (if date_malformed (start_date q) then invalidStartDate
      else if date_malformed (end_date q) then invalidEndDate
      else if \<not> available st then internalError ''An error occurred while fetching data''
      else if matching tz st q = [] then noDataFound
      else if field_missing q
        then (200, Rows (map toObject (sort_key timestamp (matching tz st q))))
        else (200, Rows (map (project (the (field q))) (sort_key timestamp (matching tz st q)))))"
  using buildDateFilter_cases [of tz q]
  by (auto simp: get_measurements_Inl get_measurements_Inr)

lemma get_metrics_responses:
  "\<not> field_missing q \<Longrightarrow> \<not> field_invalid q \<Longrightarrow>
   fst (get_metrics tz st q) =
     (if date_malformed (start_date q) then invalidStartDate
      else if date_malformed (end_date q) then invalidEndDate
      else if \<not> available st then internalError ''An error occurred while calculating metrics''
      else case group_by_stdDevPop (the (field q)) (matching tz st q) of
          [] \<Rightarrow> noDataFound
        | g # _ \<Rightarrow> (200, Metrics
                        \<lparr>m_field = the (field q),
                         m_count = g_count g,
                         m_avg = Math_round (ToNumber (g_avg g) * 100) / 100,
                         m_min = Math_round (ToNumber (g_min g) * 100) / 100,
                         m_max = Math_round (ToNumber (g_max g) * 100) / 100,
                         m_stdDev = Math_round (or_zero (g_stdDev g) * 100) / 100\<rparr>))"
  using buildDateFilter_cases [of tz q]
  by (auto simp: get_metrics_Inl get_metrics_Inr)

lemma not_malformed_empty [simp]: "\<not> date_malformed (Some [])" "\<not> date_malformed None"
  by (simp_all add: date_malformed_def)

lemma get_measurements_never_start:
  "\<not> date_malformed (start_date q) \<Longrightarrow> fst (get_measurements tz st q) \<noteq> invalidStartDate"
  by (cases "field_invalid q")
     (simp_all add: get_measurements_invalid get_measurements_responses responses_distinct
        responses_distinct [symmetric])

lemma get_measurements_never_end:
  "\<not> date_malformed (end_date q) \<Longrightarrow> fst (get_measurements tz st q) \<noteq> invalidEndDate"
  by (cases "field_invalid q")
     (simp_all add: get_measurements_invalid get_measurements_responses responses_distinct
        responses_distinct [symmetric])

lemma metrics_ok_distinct:
  "(case gs of [] \<Rightarrow> noDataFound | g # x \<Rightarrow> (200, Metrics (F g))) \<noteq> invalidStartDate"
  "(case gs of [] \<Rightarrow> noDataFound | g # x \<Rightarrow> (200, Metrics (F g))) \<noteq> invalidEndDate"
  by (simp_all add: responses_distinct split: list.splits)

lemma get_metrics_never_start:
  "\<not> date_malformed (start_date q) \<Longrightarrow> fst (get_metrics tz st q) \<noteq> invalidStartDate"
  by (cases "field_missing q"; cases "field_invalid q")
     (simp_all add: get_metrics_invalid get_metrics_missing get_metrics_responses
        responses_distinct responses_distinct [symmetric] metrics_ok_distinct)

lemma get_metrics_never_end:
  "\<not> date_malformed (end_date q) \<Longrightarrow> fst (get_metrics tz st q) \<noteq> invalidEndDate"
  by (cases "field_missing q"; cases "field_invalid q")
     (simp_all add: get_metrics_invalid get_metrics_missing get_metrics_responses
        responses_distinct responses_distinct [symmetric] metrics_ok_distinct)

subsection \<open>Validation comes before the store\<close>

text \<open>
  Claim C9. A request that fails validation (an invalid field, a missing field on the
  metrics endpoint, a malformed \<open>start_date\<close> or \<open>end_date\<close>) is answered with one of
  the 400 responses and the store is returned as it was: its documents are the same and
  no call was added to those issued. This holds whether or not the store is available.
\<close>

theorem validation_precedes_store:
  "(field_invalid q \<or> date_malformed (start_date q) \<or> date_malformed (end_date q) \<longrightarrow>
      fst (get_measurements tz st q) \<in> {invalidField, invalidStartDate, invalidEndDate} \<and>
      fst (fst (get_measurements tz st q)) = 400 \<and>
      snd (get_measurements tz st q) = st) \<and>
   (field_missing q \<or> field_invalid q \<or> date_malformed (start_date q) \<or> date_malformed (end_date q) \<longrightarrow>
      fst (get_metrics tz st q) \<in> {missingField, invalidField, invalidStartDate, invalidEndDate} \<and>
      fst (fst (get_metrics tz st q)) = 400 \<and>
      snd (get_metrics tz st q) = st)"
proof (intro conjI impI)
  assume bad: "field_invalid q \<or> date_malformed (start_date q) \<or> date_malformed (end_date q)"
  have "get_measurements tz st q \<in> {(invalidField, st), (invalidStartDate, st), (invalidEndDate, st)}"
  proof (cases "field_invalid q")
    case True
    then show ?thesis by (simp add: get_measurements_invalid)
  next
    case False
    with bad buildDateFilter_cases[of tz q] show ?thesis
      by (auto simp: get_measurements_Inl)
  qed
  then show "fst (get_measurements tz st q) \<in> {invalidField, invalidStartDate, invalidEndDate}"
    and "fst (fst (get_measurements tz st q)) = 400"
    and "snd (get_measurements tz st q) = st"
    by (auto simp: status_400)
next
  assume bad: "field_missing q \<or> field_invalid q \<or> date_malformed (start_date q) \<or> date_malformed (end_date q)"
  have "get_metrics tz st q \<in>
      {(missingField, st), (invalidField, st), (invalidStartDate, st), (invalidEndDate, st)}"
  proof (cases "field_missing q \<or> field_invalid q")
    case True
    then show ?thesis by (auto simp: get_metrics_invalid get_metrics_missing)
  next
    case False
    with bad buildDateFilter_cases[of tz q] show ?thesis
      by (auto simp: get_metrics_Inl)
  qed
  then show "fst (get_metrics tz st q) \<in> {missingField, invalidField, invalidStartDate, invalidEndDate}"
    and "fst (fst (get_metrics tz st q)) = 400"
    and "snd (get_metrics tz st q) = st"
    by (auto simp: status_400)
qed

theorem validation_precedes_store_witness:
  "field_invalid \<lparr>field = Some ''wind'', start_date = None, end_date = None\<rparr> \<and>
   fst (fst (get_measurements utc example_store
      \<lparr>field = Some ''wind'', start_date = None, end_date = None\<rparr>)) = 400 \<and>
   snd (get_measurements utc example_store
      \<lparr>field = Some ''wind'', start_date = None, end_date = None\<rparr>) = example_store \<and>
   date_malformed (start_date \<lparr>field = Some ''humidity'', start_date = Some ''2025-13-01'', end_date = None\<rparr>) \<and>
   fst (fst (get_metrics utc example_store
      \<lparr>field = Some ''humidity'', start_date = Some ''2025-13-01'', end_date = None\<rparr>)) = 400 \<and>
   snd (get_metrics utc example_store
      \<lparr>field = Some ''humidity'', start_date = Some ''2025-13-01'', end_date = None\<rparr>) = example_store"
proof -
  have a: "field_invalid \<lparr>field = Some ''wind'', start_date = None, end_date = None\<rparr>"
    by (simp add: field_invalid_def VALID_FIELDS_def)
  have "\<not> isValidDate ''2025-13-01''" by code_simp
  then have b: "date_malformed (start_date \<lparr>field = Some ''humidity'', start_date = Some ''2025-13-01'', end_date = None\<rparr>)"
    by (simp add: date_malformed_def)
  show ?thesis
    using a b
      validation_precedes_store [of "\<lparr>field = Some ''wind'', start_date = None, end_date = None\<rparr>" utc example_store]
      validation_precedes_store [of "\<lparr>field = Some ''humidity'', start_date = Some ''2025-13-01'', end_date = None\<rparr>" utc example_store]
    by blast
qed

subsection \<open>The field checks\<close>

text \<open>
  Claim C4, as stated, at \<open>field=\<close> on the metrics endpoint: the field is present and
  is not one of the three valid names, and the answer is the missing-field error, not the
  invalid-field one.
\<close>

theorem field_present_not_valid_counterexample:
  "field \<lparr>field = Some [], start_date = None, end_date = None\<rparr> \<noteq> None \<and>
   array_includes VALID_FIELDS (field \<lparr>field = Some [], start_date = None, end_date = None\<rparr>) = False \<and>
   fst (get_metrics utc example_store \<lparr>field = Some [], start_date = None, end_date = None\<rparr>) =
     missingField \<and>
   fst (get_metrics utc example_store \<lparr>field = Some [], start_date = None, end_date = None\<rparr>) \<noteq>
     invalidField"
  by (simp add: get_metrics_def truthy_def array_includes_def VALID_FIELDS_def
      missingField_def invalidField_def)

text \<open>
  Claim C4, amended. On the metrics endpoint a field that is absent or empty gives the
  missing-field error, and a non-empty field outside temperature, humidity, pressure
  gives the invalid-field error, whose message lists the three names; the two errors
  differ. On the list endpoint an absent or empty field is allowed (the answer is neither
  of the two field errors) and a non-empty field outside the set gives the invalid-field
  error.
\<close>

theorem field_checks:
  "(field_missing q \<longrightarrow> fst (get_metrics tz st q) = missingField) \<and>
   (field_invalid q \<longrightarrow>
      fst (get_metrics tz st q) = invalidField \<and> fst (get_measurements tz st q) = invalidField) \<and>
   (field_missing q \<longrightarrow>
      fst (get_measurements tz st q) \<noteq> invalidField \<and>
      fst (get_measurements tz st q) \<noteq> missingField) \<and>
   invalidField =
     (400, Error ''Invalid field name'' ''Field must be one of: temperature, humidity, pressure'') \<and>
   missingField =
     (400, Error ''Missing field parameter''
        ''Field is required. Must be one of: temperature, humidity, pressure'') \<and>
   missingField \<noteq> invalidField"
proof -
  have "fst (get_measurements tz st q) \<noteq> invalidField \<and>
        fst (get_measurements tz st q) \<noteq> missingField" if "field_missing q"
  proof -
    from that have "\<not> field_invalid q"
      by (auto simp: field_missing_def field_invalid_def split: option.splits)
    then show ?thesis
      by (simp add: get_measurements_responses responses_distinct responses_distinct [symmetric])
  qed
  then show ?thesis
    by (simp add: get_metrics_missing get_metrics_invalid get_measurements_invalid
        responses_distinct)
       (simp add: invalidField_def missingField_def VALID_FIELDS_def)
qed

theorem field_checks_witness:
  "field_missing \<lparr>field = None, start_date = None, end_date = None\<rparr> \<and>
   fst (get_metrics utc example_store \<lparr>field = None, start_date = None, end_date = None\<rparr>) =
     missingField \<and>
   fst (get_measurements utc example_store \<lparr>field = None, start_date = None, end_date = None\<rparr>) \<noteq>
     invalidField \<and>
   field_invalid \<lparr>field = Some ''wind'', start_date = None, end_date = None\<rparr> \<and>
   fst (get_metrics utc example_store \<lparr>field = Some ''wind'', start_date = None, end_date = None\<rparr>) =
     invalidField \<and>
   fst (get_measurements utc example_store
      \<lparr>field = Some ''wind'', start_date = None, end_date = None\<rparr>) = invalidField"
proof -
  have a: "field_missing \<lparr>field = None, start_date = None, end_date = None\<rparr>"
    by (simp add: field_missing_def)
  have b: "field_invalid \<lparr>field = Some ''wind'', start_date = None, end_date = None\<rparr>"
    by (simp add: field_invalid_def VALID_FIELDS_def)
  show ?thesis
    using a b
      field_checks [of "\<lparr>field = None, start_date = None, end_date = None\<rparr>" utc example_store]
      field_checks [of "\<lparr>field = Some ''wind'', start_date = None, end_date = None\<rparr>" utc
        example_store]
    by blast
qed

subsection \<open>The date checks\<close>

lemma isValidDate_iff:
  "isValidDate s \<longleftrightarrow>
     regex_test s \<and> 1 \<le> monthOf s \<and> monthOf s \<le> 12 \<and> 1 \<le> dayOf s \<and> dayOf s \<le> 31"
  by (simp add: isValidDate_def new_Date_def isNaN_def Let_def)









subsection \<open>No matching observation\<close>

lemma new_Date_dvd: "new_Date s = Time a \<Longrightarrow> msPerDay dvd a"
  by (auto simp: new_Date_def split: if_splits)

lemma new_Date_nonempty: "new_Date s = Time a \<Longrightarrow> s \<noteq> [] \<and> isValidDate s"
  by (auto simp: new_Date_def isValidDate_iff regex_test_def split: if_splits)

lemma setHours_Time:
  "setHours tz (Time t) 23 59 59 999 =
     Time ((t + offset_utc tz t) div msPerDay * msPerDay + 86399999 -
           offset_local tz ((t + offset_utc tz t) div msPerDay * msPerDay + 86399999))"
  by (simp add: setHours_def Let_def)

lemma setHours_fixed:
  "setHours (fixed_zone off) (Time t) 23 59 59 999 =
     Time ((t + off) div msPerDay * msPerDay + 86399999 - off)"
  by (simp add: setHours_Time fixed_zone_def)

lemma end_of_day_upper:
  "(t + off) div msPerDay * msPerDay + 86399999 - off < t + msPerDay"
proof -
  have "(t + off) div msPerDay * msPerDay \<le> t + off"
    by (simp add: msPerDay_def)
  then show ?thesis by (simp add: msPerDay_def)
qed

lemma days_apart:
  assumes "msPerDay dvd a" "msPerDay dvd b" "b < a"
  shows "b + msPerDay \<le> a"
proof -
  from assms obtain i j where "a = msPerDay * i" "b = msPerDay * j"
    by (auto simp: dvd_def)
  with assms(3) have "j < i" by (simp add: msPerDay_def)
  then have "j + 1 \<le> i" by simp
  then have "msPerDay * (j + 1) \<le> msPerDay * i"
    by (simp add: msPerDay_def)
  with \<open>a = _\<close> \<open>b = _\<close> show ?thesis by (simp add: algebra_simps)
qed

lemma range_of_valid:
  "\<not> date_malformed (start_date q) \<Longrightarrow> \<not> date_malformed (end_date q) \<Longrightarrow>
   range_of tz q =
     buildQuery \<lparr>gte = bound_of new_Date (start_date q),
                 lte = bound_of (\<lambda>s. setHours tz (new_Date s) 23 59 59 999) (end_date q)\<rparr>"
  by (simp add: range_of_def buildDateFilter_ok)

text \<open>Where the clocks never change, a \<open>start_date\<close> that denotes a later day than
  \<open>end_date\<close> selects nothing.\<close>

lemma start_after_end_no_match:
  assumes "start_after_end q"
  shows "matching (fixed_zone off) st q = []"
proof -
  from assms obtain s e a b where
    se: "start_date q = Some s" "end_date q = Some e" and
    ab: "new_Date s = Time a" "new_Date e = Time b" "b < a"
    by (auto simp: start_after_end_def split: option.splits jsdate.splits)
  from ab have ne: "s \<noteq> []" "isValidDate s" "e \<noteq> []" "isValidDate e"
    using new_Date_nonempty by blast+
  with se have ok: "\<not> date_malformed (start_date q)" "\<not> date_malformed (end_date q)"
    by (simp_all add: date_malformed_def)
  have "b + msPerDay \<le> a"
    using ab new_Date_dvd days_apart by blast
  with end_of_day_upper [of b off]
  have lt: "(b + off) div msPerDay * msPerDay + 86399999 - off < a" by linarith
  have "range_of (fixed_zone off) q =
      \<lparr>q_timestamp = Some \<lparr>gte = Some (Time a),
         lte = Some (Time ((b + off) div msPerDay * msPerDay + 86399999 - off))\<rparr>\<rparr>"
    using se ab ne
    by (simp add: range_of_valid [OF ok] bound_of_def setHours_fixed buildQuery_def
        Object_keys_def)
  with lt have "\<not> matches (range_of (fixed_zone off) q) m" for m
    by (simp add: matches_def)
  then show ?thesis by (simp add: matching_def)
qed

lemma empty_store_no_match: "docs st = [] \<Longrightarrow> matching tz st q = []"
  by (simp add: matching_def)

lemma group_by_stdDevPop_Nil [simp]: "group_by_stdDevPop f [] = []"
  by (simp add: group_by_stdDevPop_def)

text \<open>When the store answers and the range of the request selects no stored
  observation, as with an empty store, a request that passes validation gets the
  no-data answer, on both endpoints.\<close>

lemma no_match_is_not_found:
  assumes "available st"
    and "matching tz st q = [] \<or> docs st = []"
  shows "(list_valid q \<longrightarrow> fst (get_measurements tz st q) = noDataFound) \<and>
         (metrics_valid q \<longrightarrow> fst (get_metrics tz st q) = noDataFound) \<and>
         noDataFound =
           (404, Error ''No data found'' ''No measurements found for the specified criteria'')"
proof -
  from assms(2) have "matching tz st q = []"
    using empty_store_no_match by blast
  with assms(1) show ?thesis
    by (simp add: list_valid_def metrics_valid_def get_measurements_responses
        get_metrics_responses)
       (simp add: noDataFound_def)
qed

text \<open>
  Claim C2 evaluated on a server in the Azores for \<open>start_date=2025-10-27\<close> and
  \<open>end_date=2025-10-26\<close>, the day the clocks go back. Both dates pass validation and
  the start is the later day. The end date is read as midnight UTC of 26 October, which
  is midnight local (summer time); \<open>setHours(23, 59, 59, 999)\<close> moves it to
  23:59:59.999 local, by then one hour behind UTC, which is 00:59:59.999 UTC on
  27 October. The range from midnight UTC of 27 October to that instant is not empty:
  an observation of 00:30 UTC on 27 October is in it, and both endpoints answer 200
  where the claim says that there is no data.
\<close>

theorem inverted_range_on_clock_change:
  "start_after_end \<lparr>field = None, start_date = Some ''2025-10-27'', end_date = Some ''2025-10-26''\<rparr> \<and>
   list_valid \<lparr>field = None, start_date = Some ''2025-10-27'', end_date = Some ''2025-10-26''\<rparr> \<and>
   buildDateFilter azores_2025
       \<lparr>field = None, start_date = Some ''2025-10-27'', end_date = Some ''2025-10-26''\<rparr> =
     Inr \<lparr>gte = Some (Time 1761523200000), lte = Some (Time 1761526799999)\<rparr> \<and>
   fst (get_measurements azores_2025
      \<lparr>docs = [\<lparr>timestamp = 1761525000000, temperature = 18, humidity = 80, pressure = 1020\<rparr>],
       available = True, issued = []\<rparr>
      \<lparr>field = None, start_date = Some ''2025-10-27'', end_date = Some ''2025-10-26''\<rparr>) =
     (200, Rows [[(''timestamp'', JDate 1761525000000), (''temperature'', JNum 18),
                  (''humidity'', JNum 80), (''pressure'', JNum 1020)]]) \<and>
   fst (fst (get_metrics azores_2025
      \<lparr>docs = [\<lparr>timestamp = 1761525000000, temperature = 18, humidity = 80, pressure = 1020\<rparr>],
       available = True, issued = []\<rparr>
      \<lparr>field = Some ''humidity'', start_date = Some ''2025-10-27'',
       end_date = Some ''2025-10-26''\<rparr>)) = 200"
proof -
  let ?q = "\<lparr>field = None, start_date = Some ''2025-10-27'', end_date = Some ''2025-10-26''\<rparr>"
  let ?qm = "\<lparr>field = Some ''humidity'', start_date = Some ''2025-10-27'',
              end_date = Some ''2025-10-26''\<rparr>"
  let ?m = "\<lparr>timestamp = 1761525000000, temperature = 18, humidity = 80, pressure = 1020\<rparr>"
  let ?st = "\<lparr>docs = [?m], available = True, issued = []\<rparr>"
  have d: "isValidDate ''2025-10-27''" "new_Date ''2025-10-27'' = Time 1761523200000"
    "isValidDate ''2025-10-26''" "new_Date ''2025-10-26'' = Time 1761436800000"
    by code_simp+
  have a: "start_after_end ?q"
    by (simp add: start_after_end_def d)
  have ok: "\<not> date_malformed (start_date ?q)" "\<not> date_malformed (end_date ?q)"
    "\<not> date_malformed (start_date ?qm)" "\<not> date_malformed (end_date ?qm)"
    using d by (simp_all add: date_malformed_def)
  have v: "list_valid ?q" "metrics_valid ?qm"
    using ok by (simp_all add: list_valid_def metrics_valid_def field_invalid_def
        field_missing_def VALID_FIELDS_def)
  have s: "setHours azores_2025 (Time 1761436800000) 23 59 59 999 = Time 1761526799999"
    by (simp add: setHours_Time azores_2025_def msPerDay_def)
  have f: "buildDateFilter azores_2025 ?q =
      Inr \<lparr>gte = Some (Time 1761523200000), lte = Some (Time 1761526799999)\<rparr>"
    using d s by (simp add: buildDateFilter_ok [OF ok(1,2)] bound_of_def)
  have r: "range_of azores_2025 ?q =
      \<lparr>q_timestamp = Some \<lparr>gte = Some (Time 1761523200000), lte = Some (Time 1761526799999)\<rparr>\<rparr>"
    by (simp add: range_of_def f buildQuery_def Object_keys_def)
  have "range_of azores_2025 ?qm = range_of azores_2025 ?q"
    by (simp add: range_of_def buildDateFilter_def Let_def)
  with r have m: "matching azores_2025 ?st ?q = [?m]" "matching azores_2025 ?st ?qm = [?m]"
    by (simp_all add: matching_def matches_def)
  have l: "fst (get_measurements azores_2025 ?st ?q) = (200, Rows [toObject ?m])"
    using v(1) ok m(1)
    by (simp add: get_measurements_responses list_valid_def field_missing_def)
  have g: "fst (fst (get_metrics azores_2025 ?st ?qm)) = 200"
    using v(2) ok m(2)
    by (simp add: get_metrics_responses metrics_valid_def list_valid_def
        group_by_stdDevPop_def Let_def)
  from a v(1) f l g show ?thesis
    by (simp add: toObject_def)
qed

text \<open>The same request where the clocks do not change selects nothing and is answered
  with no data, as is any request whose start denotes a later day than its end.\<close>

lemma inverted_range_fixed_zone:
  assumes "available st" and "start_after_end q"
  shows "(list_valid q \<longrightarrow> fst (get_measurements (fixed_zone off) st q) = noDataFound) \<and>
         (metrics_valid q \<longrightarrow> fst (get_metrics (fixed_zone off) st q) = noDataFound)"
  using no_match_is_not_found [of st "fixed_zone off" q] assms start_after_end_no_match
  by blast

subsection \<open>The list endpoint's rows\<close>

lemma project_valid:
  "f \<in> set VALID_FIELDS \<Longrightarrow>
   project f m = [(''timestamp'', JDate (timestamp m)), (f, JNum (value_of f m))]"
  by (auto simp: project_def getProp_def toObject_def value_of_def VALID_FIELDS_def)

lemma example_range:
  "range_of utc \<lparr>field = Some ''humidity'', start_date = None, end_date = Some ''2025-01-02''\<rparr> =
     \<lparr>q_timestamp = Some \<lparr>gte = None, lte = Some (Time 1735862399999)\<rparr>\<rparr>"
proof -
  have "isValidDate ''2025-01-02''" "new_Date ''2025-01-02'' = Time 1735776000000"
    by code_simp+
  then show ?thesis
    by (simp add: range_of_valid date_malformed_def bound_of_def buildQuery_def Object_keys_def
        utc_def setHours_fixed msPerDay_def)
qed

lemma example_matching:
  "matching utc example_store
     \<lparr>field = Some ''humidity'', start_date = None, end_date = Some ''2025-01-02''\<rparr> =
   [\<lparr>timestamp = 1735776000000, temperature = 20, humidity = 55, pressure = 1012\<rparr>,
    \<lparr>timestamp = 1735689600000, temperature = 10, humidity = 50, pressure = 1010\<rparr>]"
  by (simp add: matching_def example_range example_store_def matches_def)

text \<open>
  Claim C6. For a request that passes the list endpoint's validation, with the store
  answering and at least one observation in the range, the answer is 200 with one row
  per matching observation, in non-decreasing order of timestamp (the rows are those
  of the matching observations sorted by timestamp, a permutation of them). With a
  field supplied each row is exactly the timestamp and that field; with no field
  (absent or empty) each row is the full record.
\<close>

theorem list_sorted_projected:
  assumes "available st" and "list_valid q" and "matching tz st q \<noteq> []"
  shows
    "sorted (map timestamp (sort_key timestamp (matching tz st q))) \<and>
     mset (sort_key timestamp (matching tz st q)) = mset (matching tz st q) \<and>
     (field_missing q \<longrightarrow>
        fst (get_measurements tz st q) =
          (200, Rows (map toObject (sort_key timestamp (matching tz st q))))) \<and>
     (\<forall>f. field q = Some f \<and> f \<noteq> [] \<longrightarrow>
        fst (get_measurements tz st q) =
          (200, Rows (map (\<lambda>m. [(''timestamp'', JDate (timestamp m)), (f, JNum (value_of f m))])
             (sort_key timestamp (matching tz st q)))))"
proof (intro conjI impI allI)
  show "sorted (map timestamp (sort_key timestamp (matching tz st q)))"
    by simp
  show "mset (sort_key timestamp (matching tz st q)) = mset (matching tz st q)"
    by simp
next
  assume "field_missing q"
  with assms show "fst (get_measurements tz st q) =
      (200, Rows (map toObject (sort_key timestamp (matching tz st q))))"
    by (simp add: list_valid_def get_measurements_responses)
next
  fix f
  assume f: "field q = Some f \<and> f \<noteq> []"
  with assms(2) have v: "f \<in> set VALID_FIELDS" and nm: "\<not> field_missing q"
    by (auto simp: list_valid_def field_invalid_def field_missing_def)
  from assms nm f have "fst (get_measurements tz st q) =
      (200, Rows (map (project f) (sort_key timestamp (matching tz st q))))"
    by (simp add: list_valid_def get_measurements_responses)
  then show "fst (get_measurements tz st q) =
      (200, Rows (map (\<lambda>m. [(''timestamp'', JDate (timestamp m)), (f, JNum (value_of f m))])
         (sort_key timestamp (matching tz st q))))"
    using v by (simp add: project_valid cong: map_cong)
qed

theorem list_sorted_projected_witness:
  "available example_store \<and>
   list_valid \<lparr>field = Some ''humidity'', start_date = None, end_date = Some ''2025-01-02''\<rparr> \<and>
   matching utc example_store
     \<lparr>field = Some ''humidity'', start_date = None, end_date = Some ''2025-01-02''\<rparr> \<noteq> [] \<and>
   fst (get_measurements utc example_store
     \<lparr>field = Some ''humidity'', start_date = None, end_date = Some ''2025-01-02''\<rparr>) =
     (200, Rows [[(''timestamp'', JDate 1735689600000), (''humidity'', JNum 50)],
                 [(''timestamp'', JDate 1735776000000), (''humidity'', JNum 55)]])"
proof -
  let ?q = "\<lparr>field = Some ''humidity'', start_date = None, end_date = Some ''2025-01-02''\<rparr>"
  have v: "isValidDate ''2025-01-02''" by code_simp
  have a: "available example_store" by (simp add: example_store_def)
  have b: "list_valid ?q"
    by (simp add: list_valid_def field_invalid_def date_malformed_def VALID_FIELDS_def v)
  have c: "matching utc example_store ?q \<noteq> []" by (simp add: example_matching)
  have "fst (get_measurements utc example_store ?q) =
      (200, Rows (map (\<lambda>m. [(''timestamp'', JDate (timestamp m)),
          (''humidity'', JNum (value_of ''humidity'' m))])
        (sort_key timestamp (matching utc example_store ?q))))"
    using list_sorted_projected [OF a b c] by simp
  then show ?thesis
    using a b c by (simp add: example_matching value_of_def)
qed

subsection \<open>The bounds of the range\<close>

text \<open>On a server whose local time is UTC the range runs from midnight UTC of the
  start day to 23:59:59.999 UTC of the end day, both included, and a request without
  bounds selects every observation.\<close>

lemma utc_bounds:
  assumes "new_Date s = Time a" and "new_Date e = Time b"
  shows "matches (range_of utc \<lparr>field = f, start_date = Some s, end_date = Some e\<rparr>) m \<longleftrightarrow>
         a \<le> timestamp m \<and> timestamp m \<le> b + 86399999"
proof -
  from assms have ne: "s \<noteq> []" "isValidDate s" "e \<noteq> []" "isValidDate e"
    using new_Date_nonempty by blast+
  from assms(2) have "msPerDay dvd b" by (rule new_Date_dvd)
  then have "b div msPerDay * msPerDay = b" by simp
  with assms ne show ?thesis
    by (simp add: range_of_valid date_malformed_def bound_of_def utc_def setHours_fixed
        buildQuery_def Object_keys_def matches_def)
qed

lemma absent_bounds:
  "matches (range_of tz \<lparr>field = f, start_date = None, end_date = None\<rparr>) m"
  by (simp add: range_of_valid bound_of_def buildQuery_def Object_keys_def matches_def)

text \<open>
  Claim C3 evaluated on a server in New York, five hours behind UTC in January, for
  \<open>end_date=2025-01-02\<close>. The string is read as midnight UTC of 2 January, which is
  19:00 on 1 January in local time; \<open>setHours(23, 59, 59, 999)\<close> then moves it to the
  end of 1 January local, 04:59:59.999 UTC on 2 January. An observation of noon UTC on
  2 January is outside the range, and the list endpoint answers that there is no data.
\<close>

theorem end_of_day_in_local_time:
  "new_Date ''2025-01-02'' = Time 1735776000000 \<and>
   buildDateFilter new_york_2025
       \<lparr>field = None, start_date = None, end_date = Some ''2025-01-02''\<rparr> =
     Inr \<lparr>gte = None, lte = Some (Time 1735793999999)\<rparr> \<and>
   \<not> matches
       (range_of new_york_2025 \<lparr>field = None, start_date = None, end_date = Some ''2025-01-02''\<rparr>)
       \<lparr>timestamp = 1735819200000, temperature = 1, humidity = 2, pressure = 3\<rparr> \<and>
   fst (get_measurements new_york_2025
      \<lparr>docs = [\<lparr>timestamp = 1735819200000, temperature = 1, humidity = 2, pressure = 3\<rparr>],
       available = True, issued = []\<rparr>
      \<lparr>field = None, start_date = None, end_date = Some ''2025-01-02''\<rparr>) = noDataFound"
proof -
  let ?q = "\<lparr>field = None, start_date = None, end_date = Some ''2025-01-02''\<rparr>"
  have d: "isValidDate ''2025-01-02''" "new_Date ''2025-01-02'' = Time 1735776000000"
    by code_simp+
  then have ok: "\<not> date_malformed (start_date ?q)" "\<not> date_malformed (end_date ?q)"
    by (simp_all add: date_malformed_def)
  have s: "setHours new_york_2025 (Time 1735776000000) 23 59 59 999 = Time 1735793999999"
    by (simp add: setHours_Time new_york_2025_def msPerDay_def)
  have f: "buildDateFilter new_york_2025 ?q =
      Inr \<lparr>gte = None, lte = Some (Time 1735793999999)\<rparr>"
    using d s by (simp add: buildDateFilter_ok [OF ok] bound_of_def)
  then have r: "range_of new_york_2025 ?q =
      \<lparr>q_timestamp = Some \<lparr>gte = None, lte = Some (Time 1735793999999)\<rparr>\<rparr>"
    by (simp add: range_of_def buildQuery_def Object_keys_def)
  have m: "\<not> matches (range_of new_york_2025 ?q)
       \<lparr>timestamp = 1735819200000, temperature = 1, humidity = 2, pressure = 3\<rparr>"
    by (simp add: r matches_def)
  have "fst (get_measurements new_york_2025
      \<lparr>docs = [\<lparr>timestamp = 1735819200000, temperature = 1, humidity = 2, pressure = 3\<rparr>],
       available = True, issued = []\<rparr> ?q) = noDataFound"
    using ok m by (simp add: get_measurements_responses field_invalid_def matching_def)
  with d f m show ?thesis by simp
qed

text \<open>The same at any constant offset west of Greenwich: the upper bound is the end of
  the local day before the one named, less than a day after midnight UTC of the end
  date by the size of the offset.\<close>

lemma end_of_day_west:
  assumes "new_Date e = Time b" and "- msPerDay < off" and "off < 0"
  shows "buildDateFilter (fixed_zone off) \<lparr>field = f, start_date = None, end_date = Some e\<rparr> =
           Inr \<lparr>gte = None, lte = Some (Time (b - off - 1))\<rparr>"
proof -
  let ?q = "\<lparr>field = f, start_date = None, end_date = Some e\<rparr>"
  from assms(1) have ne: "e \<noteq> []" "isValidDate e"
    using new_Date_nonempty by blast+
  then have ok: "\<not> date_malformed (start_date ?q)" "\<not> date_malformed (end_date ?q)"
    by (simp_all add: date_malformed_def)
  from assms(1) have "msPerDay dvd b" by (rule new_Date_dvd)
  then obtain k where k: "b = msPerDay * k" by (auto simp: dvd_def)
  have "msPerDay * k + off = msPerDay * (k - 1) + (msPerDay + off)"
    by (simp add: algebra_simps)
  moreover have "0 \<le> msPerDay + off" "msPerDay + off < msPerDay"
    using assms(2,3) by simp_all
  ultimately have "(msPerDay * k + off) div msPerDay = k - 1"
    by (rule int_div_pos_eq)
  then have "(b + off) div msPerDay * msPerDay + 86399999 - off = b - off - 1"
    by (simp add: k algebra_simps msPerDay_def)
  then show ?thesis
    using assms(1) ne by (simp add: buildDateFilter_ok [OF ok] bound_of_def setHours_fixed)
qed

text \<open>A request whose end date names a day that does not exist: \<open>2025-02-30\<close> is
  taken for 2 March, so a start date of 1 March, later by the calendar, leaves a range
  of two days, and on a server on UTC an observation of noon on 1 March is returned.\<close>

lemma end_date_rolled_over:
  "list_valid \<lparr>field = None, start_date = Some ''2025-03-01'', end_date = Some ''2025-02-30''\<rparr> \<and>
   buildDateFilter utc
       \<lparr>field = None, start_date = Some ''2025-03-01'', end_date = Some ''2025-02-30''\<rparr> =
     Inr \<lparr>gte = Some (Time 1740787200000), lte = Some (Time 1740959999999)\<rparr> \<and>
   fst (fst (get_measurements utc
      \<lparr>docs = [\<lparr>timestamp = 1740830400000, temperature = 1, humidity = 2, pressure = 3\<rparr>],
       available = True, issued = []\<rparr>
      \<lparr>field = None, start_date = Some ''2025-03-01'', end_date = Some ''2025-02-30''\<rparr>)) = 200"
proof -
  let ?q = "\<lparr>field = None, start_date = Some ''2025-03-01'', end_date = Some ''2025-02-30''\<rparr>"
  have d: "isValidDate ''2025-03-01''" "new_Date ''2025-03-01'' = Time 1740787200000"
    "isValidDate ''2025-02-30''" "new_Date ''2025-02-30'' = Time 1740873600000"
    by code_simp+
  then have ok: "\<not> date_malformed (start_date ?q)" "\<not> date_malformed (end_date ?q)"
    by (simp_all add: date_malformed_def)
  then have v: "list_valid ?q"
    by (simp add: list_valid_def field_invalid_def)
  have f: "buildDateFilter utc ?q =
      Inr \<lparr>gte = Some (Time 1740787200000), lte = Some (Time 1740959999999)\<rparr>"
    using d by (simp add: buildDateFilter_ok [OF ok] bound_of_def utc_def setHours_fixed
        msPerDay_def)
  then have r: "range_of utc ?q =
      \<lparr>q_timestamp = Some \<lparr>gte = Some (Time 1740787200000), lte = Some (Time 1740959999999)\<rparr>\<rparr>"
    by (simp add: range_of_def buildQuery_def Object_keys_def)
  have "fst (fst (get_measurements utc
      \<lparr>docs = [\<lparr>timestamp = 1740830400000, temperature = 1, humidity = 2, pressure = 3\<rparr>],
       available = True, issued = []\<rparr> ?q)) = 200"
    using ok by (simp add: get_measurements_responses field_invalid_def field_missing_def
        matching_def r matches_def)
  with v f show ?thesis by simp
qed

subsection \<open>An empty parameter is an absent one\<close>

text \<open>
  Claim C10. An empty-string query parameter behaves as an absent one. On the list
  endpoint the request with \<open>field=\<close> gets the answer of the request without a field,
  which is never the invalid-field error; when the dates pass, the store answers and
  observations match, it is 200 with the full records of the matching observations.
  \<open>start_date=\<close> and \<open>end_date=\<close> get the answer of the request without
  that bound, on both endpoints, and never its date-format error; the date filter built
  has no lower bound for \<open>start_date=\<close> and no upper bound for \<open>end_date=\<close>, and
  with both empty every observation is in the range. On the metrics endpoint \<open>field=\<close>
  gets the missing-field error, which is not the invalid-field one.
\<close>

theorem empty_string_is_absent:
  "get_measurements tz st (q\<lparr>field := Some []\<rparr>) = get_measurements tz st (q\<lparr>field := None\<rparr>) \<and>
   get_measurements tz st (q\<lparr>start_date := Some []\<rparr>) =
     get_measurements tz st (q\<lparr>start_date := None\<rparr>) \<and>
   get_measurements tz st (q\<lparr>end_date := Some []\<rparr>) =
     get_measurements tz st (q\<lparr>end_date := None\<rparr>) \<and>
   get_metrics tz st (q\<lparr>start_date := Some []\<rparr>) =
     get_metrics tz st (q\<lparr>start_date := None\<rparr>) \<and>
   get_metrics tz st (q\<lparr>end_date := Some []\<rparr>) =
     get_metrics tz st (q\<lparr>end_date := None\<rparr>) \<and>
   fst (get_measurements tz st (q\<lparr>field := Some []\<rparr>)) \<in>
     {invalidStartDate, invalidEndDate,
      internalError ''An error occurred while fetching data'', noDataFound,
      (200, Rows (map toObject (sort_key timestamp (matching tz st q))))} \<and>
   (available st \<and> \<not> date_malformed (start_date q) \<and> \<not> date_malformed (end_date q) \<and>
    matching tz st q \<noteq> [] \<longrightarrow>
      fst (get_measurements tz st (q\<lparr>field := Some []\<rparr>)) =
        (200, Rows (map toObject (sort_key timestamp (matching tz st q))))) \<and>
   (\<not> date_malformed (end_date q) \<longrightarrow>
      buildDateFilter tz (q\<lparr>start_date := Some []\<rparr>) =
        Inr \<lparr>gte = None,
             lte = bound_of (\<lambda>s. setHours tz (new_Date s) 23 59 59 999) (end_date q)\<rparr>) \<and>
   (\<not> date_malformed (start_date q) \<longrightarrow>
      buildDateFilter tz (q\<lparr>end_date := Some []\<rparr>) =
        Inr \<lparr>gte = bound_of new_Date (start_date q), lte = None\<rparr>) \<and>
   (\<forall>m. matches (range_of tz (q\<lparr>start_date := Some [], end_date := Some []\<rparr>)) m) \<and>
   fst (get_measurements tz st (q\<lparr>field := Some []\<rparr>)) \<noteq> invalidField \<and>
   fst (get_measurements tz st (q\<lparr>start_date := Some []\<rparr>)) \<noteq> invalidStartDate \<and>
   fst (get_measurements tz st (q\<lparr>end_date := Some []\<rparr>)) \<noteq> invalidEndDate \<and>
   fst (get_metrics tz st (q\<lparr>start_date := Some []\<rparr>)) \<noteq> invalidStartDate \<and>
   fst (get_metrics tz st (q\<lparr>end_date := Some []\<rparr>)) \<noteq> invalidEndDate \<and>
   get_metrics tz st (q\<lparr>field := Some []\<rparr>) = (missingField, st) \<and>
   missingField \<noteq> invalidField"
proof -
  have resp: "fst (get_measurements tz st (q\<lparr>field := Some []\<rparr>)) \<in>
     {invalidStartDate, invalidEndDate,
      internalError ''An error occurred while fetching data'', noDataFound,
      (200, Rows (map toObject (sort_key timestamp (matching tz st q))))}"
    by (simp add: get_measurements_responses)
  have full: "fst (get_measurements tz st (q\<lparr>field := Some []\<rparr>)) =
        (200, Rows (map toObject (sort_key timestamp (matching tz st q))))"
    if "available st \<and> \<not> date_malformed (start_date q) \<and> \<not> date_malformed (end_date q) \<and>
      matching tz st q \<noteq> []"
    using that by (simp add: get_measurements_responses)
  have lower: "buildDateFilter tz (q\<lparr>start_date := Some []\<rparr>) =
        Inr \<lparr>gte = None,
             lte = bound_of (\<lambda>s. setHours tz (new_Date s) 23 59 59 999) (end_date q)\<rparr>"
    if "\<not> date_malformed (end_date q)"
    using that buildDateFilter_ok [of "q\<lparr>start_date := Some []\<rparr>" tz]
    by (simp add: bound_of_def)
  have upper: "buildDateFilter tz (q\<lparr>end_date := Some []\<rparr>) =
        Inr \<lparr>gte = bound_of new_Date (start_date q), lte = None\<rparr>"
    if "\<not> date_malformed (start_date q)"
    using that buildDateFilter_ok [of "q\<lparr>end_date := Some []\<rparr>" tz]
    by (simp add: bound_of_def)
  have "buildDateFilter tz (q\<lparr>start_date := Some [], end_date := Some []\<rparr>) =
      Inr \<lparr>gte = None, lte = None\<rparr>"
    using buildDateFilter_ok [of "q\<lparr>start_date := Some [], end_date := Some []\<rparr>" tz]
    by (simp add: bound_of_def)
  then have every: "matches (range_of tz (q\<lparr>start_date := Some [], end_date := Some []\<rparr>)) m"
    for m
    by (simp add: range_of_def buildQuery_def Object_keys_def matches_def)
  have "fst (get_measurements tz st (q\<lparr>field := Some []\<rparr>)) \<noteq> invalidField"
    by (simp add: get_measurements_responses responses_distinct responses_distinct [symmetric])
  with resp full lower upper every show ?thesis
    by (simp add: get_measurements_empty_field get_measurements_empty_start
        get_measurements_empty_end get_metrics_empty_start get_metrics_empty_end
        get_measurements_never_start get_measurements_never_end get_metrics_never_start
        get_metrics_never_end get_metrics_missing responses_distinct)
qed

theorem empty_string_is_absent_witness:
  "available example_store \<and>
   \<not> date_malformed (start_date \<lparr>field = None, start_date = None, end_date = None\<rparr>) \<and>
   \<not> date_malformed (end_date \<lparr>field = None, start_date = None, end_date = None\<rparr>) \<and>
   matching utc example_store \<lparr>field = None, start_date = None, end_date = None\<rparr> \<noteq> [] \<and>
   fst (get_measurements utc example_store
      \<lparr>field = Some [], start_date = None, end_date = None\<rparr>) =
     (200, Rows
       [[(''timestamp'', JDate 1735689600000), (''temperature'', JNum 10),
         (''humidity'', JNum 50), (''pressure'', JNum 1010)],
        [(''timestamp'', JDate 1735776000000), (''temperature'', JNum 20),
         (''humidity'', JNum 55), (''pressure'', JNum 1012)],
        [(''timestamp'', JDate 1735862400000), (''temperature'', JNum 30),
         (''humidity'', JNum 60), (''pressure'', JNum 1015)]]) \<and>
   buildDateFilter utc \<lparr>field = None, start_date = Some [], end_date = None\<rparr> =
     Inr \<lparr>gte = None, lte = None\<rparr> \<and>
   buildDateFilter utc \<lparr>field = None, start_date = None, end_date = Some []\<rparr> =
     Inr \<lparr>gte = None, lte = None\<rparr> \<and>
   fst (get_metrics utc example_store \<lparr>field = Some [], start_date = None, end_date = None\<rparr>) =
     missingField"
proof -
  let ?q = "\<lparr>field = None, start_date = None, end_date = None\<rparr>"
  have a: "available example_store" by (simp add: example_store_def)
  have m: "matching utc example_store ?q = docs example_store"
    by (simp add: matching_def absent_bounds)
  then have c: "matching utc example_store ?q \<noteq> []"
    by (simp add: example_store_def)
  have s: "sort_key timestamp (docs example_store) =
     [\<lparr>timestamp = 1735689600000, temperature = 10, humidity = 50, pressure = 1010\<rparr>,
      \<lparr>timestamp = 1735776000000, temperature = 20, humidity = 55, pressure = 1012\<rparr>,
      \<lparr>timestamp = 1735862400000, temperature = 30, humidity = 60, pressure = 1015\<rparr>]"
    by (simp add: example_store_def)
  have nd: "\<not> date_malformed (start_date ?q)" "\<not> date_malformed (end_date ?q)"
    by simp_all
  note t = empty_string_is_absent [of utc example_store ?q]
  from t a c nd have r:
    "fst (get_measurements utc example_store (?q\<lparr>field := Some []\<rparr>)) =
       (200, Rows (map toObject (sort_key timestamp (matching utc example_store ?q))))"
    by blast
  from t nd have l:
    "buildDateFilter utc (?q\<lparr>start_date := Some []\<rparr>) =
       Inr \<lparr>gte = None,
            lte = bound_of (\<lambda>s. setHours utc (new_Date s) 23 59 59 999) (end_date ?q)\<rparr>"
    by blast
  from t nd have u:
    "buildDateFilter utc (?q\<lparr>end_date := Some []\<rparr>) =
       Inr \<lparr>gte = bound_of new_Date (start_date ?q), lte = None\<rparr>"
    by blast
  from t have g: "get_metrics utc example_store (?q\<lparr>field := Some []\<rparr>) =
      (missingField, example_store)"
    by blast
  show ?thesis
    using a c nd r l u g by (simp add: m s toObject_def bound_of_def)
qed

subsection \<open>The metrics\<close>

lemma numAt_valid: "f \<in> set VALID_FIELDS \<Longrightarrow> numAt f m = Some (value_of f m)"
  by (auto simp: numAt_def getProp_def toObject_def value_of_def VALID_FIELDS_def)

lemma map_filter_valid:
  "f \<in> set VALID_FIELDS \<Longrightarrow> List.map_filter (numAt f) ms = map (value_of f) ms"
  by (induction ms) (simp_all add: numAt_valid)

lemma metrics_valid_field:
  "metrics_valid q \<Longrightarrow>
   field q = Some (field_name q) \<and> field_name q \<in> set VALID_FIELDS \<and>
   \<not> field_missing q \<and> \<not> field_invalid q \<and>
   \<not> date_malformed (start_date q) \<and> \<not> date_malformed (end_date q)"
  by (auto simp: metrics_valid_def list_valid_def field_missing_def field_invalid_def
      field_name_def split: option.splits)

lemma matching_values_valid:
  "metrics_valid q \<Longrightarrow>
   matching_values tz st q = map (value_of (field_name q)) (matching tz st q)"
  by (simp add: matching_values_def map_filter_valid metrics_valid_field)

lemma get_metrics_found:
  assumes "available st" and "metrics_valid q" and "matching tz st q \<noteq> []"
  shows "fst (get_metrics tz st q) =
     (200, Metrics
        \<lparr>m_field = field_name q,
         m_count = length (matching tz st q),
         m_avg = Math_round (ToNumber (acc_avg (matching_values tz st q)) * 100) / 100,
         m_min = Math_round (ToNumber (acc_min (matching_values tz st q)) * 100) / 100,
         m_max = Math_round (ToNumber (acc_max (matching_values tz st q)) * 100) / 100,
         m_stdDev = Math_round (or_zero (acc_stdDevPop (matching_values tz st q)) * 100) / 100\<rparr>)"
  using assms metrics_valid_field [OF assms(2)]
  by (simp add: get_metrics_responses group_by_stdDevPop_def matching_values_def Let_def)

lemma example_matching_all:
  "matching tz example_store \<lparr>field = Some ''temperature'', start_date = None, end_date = None\<rparr> =
     docs example_store"
  by (simp add: matching_def absent_bounds)

lemma example_metrics_valid:
  "metrics_valid \<lparr>field = Some ''temperature'', start_date = None, end_date = None\<rparr>"
  by (simp add: metrics_valid_def list_valid_def field_missing_def field_invalid_def
      VALID_FIELDS_def)

lemma Math_round_mono: "x \<le> y \<Longrightarrow> Math_round x \<le> Math_round y"
  by (simp add: Math_round_def floor_mono)

lemma Math_round_nonneg: "0 \<le> x \<Longrightarrow> 0 \<le> Math_round x"
  by (simp add: Math_round_def)

lemma sum_list_lower: "\<forall>x\<in>set xs. lo \<le> x \<Longrightarrow> real (length xs) * lo \<le> sum_list xs"
  by (induction xs) (auto simp: algebra_simps intro: add_mono)

lemma sum_list_upper: "\<forall>x\<in>set xs. x \<le> hi \<Longrightarrow> sum_list xs \<le> real (length xs) * hi"
  by (induction xs) (auto simp: algebra_simps intro: add_mono)

lemma accumulators_ordered:
  assumes "vs \<noteq> []"
  shows "\<exists>a lo hi sd.
           acc_avg vs = Some a \<and> acc_min vs = Some lo \<and> acc_max vs = Some hi \<and>
           acc_stdDevPop vs = Some sd \<and> lo \<le> a \<and> a \<le> hi \<and> 0 \<le> sd"
proof -
  from assms obtain v rest where vs: "vs = v # rest" by (cases vs) auto
  define n where "n = real (length vs)"
  have n: "0 < n" using assms by (simp add: n_def)
  have "fold min rest v = Min (set (v # rest))"
    by (rule Min.set_eq_fold [symmetric])
  then have lo: "acc_min vs = Some (Min (set vs))"
    by (simp add: acc_min_def vs)
  have "fold max rest v = Max (set (v # rest))"
    by (rule Max.set_eq_fold [symmetric])
  then have hi: "acc_max vs = Some (Max (set vs))"
    by (simp add: acc_max_def vs)
  have a: "acc_avg vs = Some (sum_list vs / n)"
    using assms by (simp add: acc_avg_def n_def)
  have "n * Min (set vs) \<le> sum_list vs"
    unfolding n_def by (rule sum_list_lower) simp
  then have 1: "Min (set vs) \<le> sum_list vs / n"
    using n by (simp add: pos_le_divide_eq mult.commute)
  have "sum_list vs \<le> n * Max (set vs)"
    unfolding n_def by (rule sum_list_upper) simp
  then have 2: "sum_list vs / n \<le> Max (set vs)"
    using n by (simp add: pos_divide_le_eq mult.commute)
  have "0 \<le> (\<Sum>v\<leftarrow>vs. (v - c)\<^sup>2)" for c :: real
    by (rule sum_list_nonneg) auto
  then have "\<exists>sd. acc_stdDevPop vs = Some sd \<and> 0 \<le> sd"
    using assms by (simp add: acc_stdDevPop_def Let_def)
  with lo hi a 1 2 show ?thesis by auto
qed

lemma Math_round_sqrt_scenario: "Math_round (sqrt (200 / 3) * 100) = 816"
proof -
  have "(8155 / 1000)\<^sup>2 \<le> (200 / 3 :: real)" by (simp add: power2_eq_square)
  then have lo: "8155 / 1000 \<le> sqrt (200 / 3)" by (rule real_le_rsqrt)
  have "(200 / 3 :: real) < (8165 / 1000)\<^sup>2" by (simp add: power2_eq_square)
  then have hi: "sqrt (200 / 3) < 8165 / 1000" by (intro real_less_lsqrt) simp_all
  have "\<lfloor>sqrt (200 / 3) * 100 + 1 / 2\<rfloor> = 816"
    using lo hi by (intro floor_unique) simp_all
  then show ?thesis by (simp add: Math_round_def)
qed

text \<open>
  Claim C7. For every metrics request that passes validation and matches at least one
  observation, with the store answering, the aggregated values satisfy
  \<open>min \<le> avg \<le> max\<close> and \<open>0 \<le> stdDev\<close>, and so do the values of the answer, each
  of which is the aggregated value after \<open>round(x * 100) / 100\<close>.
\<close>

theorem metrics_ordered:
  assumes "available st" and "metrics_valid q" and "matching tz st q \<noteq> []"
  shows "\<exists>a lo hi sd r.
           acc_avg (matching_values tz st q) = Some a \<and>
           acc_min (matching_values tz st q) = Some lo \<and>
           acc_max (matching_values tz st q) = Some hi \<and>
           acc_stdDevPop (matching_values tz st q) = Some sd \<and>
           lo \<le> a \<and> a \<le> hi \<and> 0 \<le> sd \<and>
           fst (get_metrics tz st q) = (200, Metrics r) \<and>
           m_avg r = Math_round (a * 100) / 100 \<and>
           m_min r = Math_round (lo * 100) / 100 \<and>
           m_max r = Math_round (hi * 100) / 100 \<and>
           m_stdDev r = Math_round (sd * 100) / 100 \<and>
           m_min r \<le> m_avg r \<and> m_avg r \<le> m_max r \<and> 0 \<le> m_stdDev r"
proof -
  have "matching_values tz st q \<noteq> []"
    using assms by (simp add: matching_values_valid)
  from accumulators_ordered [OF this] obtain a lo hi sd where
    acc: "acc_avg (matching_values tz st q) = Some a"
      "acc_min (matching_values tz st q) = Some lo"
      "acc_max (matching_values tz st q) = Some hi"
      "acc_stdDevPop (matching_values tz st q) = Some sd"
    and ord: "lo \<le> a" "a \<le> hi" "0 \<le> sd"
    by blast
  have z: "or_zero (Some sd) = sd" by (simp add: or_zero_def)
  have "0 \<le> Math_round (sd * 100) / 100"
    using ord(3) by (simp add: Math_round_nonneg)
  with acc ord z show ?thesis
    by (simp add: get_metrics_found [OF assms] ToNumber_def Math_round_mono)
qed

theorem metrics_ordered_witness:
  "available example_store \<and>
   metrics_valid \<lparr>field = Some ''temperature'', start_date = None, end_date = None\<rparr> \<and>
   matching utc example_store
     \<lparr>field = Some ''temperature'', start_date = None, end_date = None\<rparr> \<noteq> [] \<and>
   (\<exists>r. fst (get_metrics utc example_store
            \<lparr>field = Some ''temperature'', start_date = None, end_date = None\<rparr>) =
          (200, Metrics r) \<and>
        m_min r \<le> m_avg r \<and> m_avg r \<le> m_max r \<and> 0 \<le> m_stdDev r)"
proof -
  let ?q = "\<lparr>field = Some ''temperature'', start_date = None, end_date = None\<rparr>"
  have a: "available example_store" by (simp add: example_store_def)
  have c: "matching utc example_store ?q \<noteq> []"
    by (simp add: example_matching_all) (simp add: example_store_def)
  show ?thesis
    using a example_metrics_valid c metrics_ordered [OF a example_metrics_valid c]
    by blast
qed

text \<open>
  Claim C8. With exactly the three observations of 1, 2 and 3 January 2025 (midnight
  UTC) and temperatures 10, 20 and 30 in an answering store, whatever their humidity
  and pressure, the metrics request for \<open>temperature\<close> without date bounds is answered
  200 with field temperature, count 3, avg 20, min 10, max 30 and stdDev 8.16.
\<close>

theorem scenario_metrics:
  "fst (get_metrics tz
      \<lparr>docs =
         [\<lparr>timestamp = 1735689600000, temperature = 10, humidity = h1, pressure = p1\<rparr>,
          \<lparr>timestamp = 1735776000000, temperature = 20, humidity = h2, pressure = p2\<rparr>,
          \<lparr>timestamp = 1735862400000, temperature = 30, humidity = h3, pressure = p3\<rparr>],
       available = True, issued = ops\<rparr>
      \<lparr>field = Some ''temperature'', start_date = None, end_date = None\<rparr>) =
   (200, Metrics
      \<lparr>m_field = ''temperature'', m_count = 3, m_avg = 20, m_min = 10, m_max = 30,
       m_stdDev = 816 / 100\<rparr>)"
proof -
  let ?q = "\<lparr>field = Some ''temperature'', start_date = None, end_date = None\<rparr>"
  let ?st = "\<lparr>docs =
         [\<lparr>timestamp = 1735689600000, temperature = 10, humidity = h1, pressure = p1\<rparr>,
          \<lparr>timestamp = 1735776000000, temperature = 20, humidity = h2, pressure = p2\<rparr>,
          \<lparr>timestamp = 1735862400000, temperature = 30, humidity = h3, pressure = p3\<rparr>],
       available = True, issued = ops\<rparr>"
  have m: "matching tz ?st ?q = docs ?st"
    by (simp add: matching_def absent_bounds)
  have a: "available ?st" by simp
  have c: "matching tz ?st ?q \<noteq> []" by (simp add: m)
  have vs: "matching_values tz ?st ?q = [10, 20, 30]"
    by (simp add: matching_values_valid [OF example_metrics_valid] m field_name_def value_of_def)
  have sd: "acc_stdDevPop [10, 20, 30] = Some (sqrt (200 / 3))"
    by (simp add: acc_stdDevPop_def Let_def)
  have r: "Math_round 2000 = 2000" "Math_round 1000 = 1000" "Math_round 3000 = 3000"
    by (simp_all add: Math_round_def)
  show ?thesis
    by (simp add: get_metrics_found [OF a example_metrics_valid c] vs sd m acc_avg_def
        acc_min_def acc_max_def ToNumber_def or_zero_def field_name_def r
        Math_round_sqrt_scenario)
qed

end
